theory Spec2Isabelle
  imports Main
begin

section \<open>The data model of \<^verbatim>\<open>src/context/StreamContext.tsx\<close>\<close>

text \<open>
  The module keeps one \<^verbatim>\<open>StreamData\<close> object in a React state cell and changes it only
  through \<^verbatim>\<open>setStreamData(prev => ...)\<close>. The embedding keeps that shape: an operation
  computes, from the snapshot \<^verbatim>\<open>streamData\<close> its closure sees and from what the remote
  collaborator answers, the list of state setters it issues (in order) and the error it
  throws, if any. Applying the setters to the state cell is a separate step.

  Conventions of the translation:
  \<^item> TypeScript \<^verbatim>\<open>number\<close> values that the module uses as counters and indices are \<open>int\<close>;
  \<^item> \<^verbatim>\<open>Date\<close> is the number of milliseconds since the epoch;
  \<^item> \<^verbatim>\<open>videos: any[]\<close> is a list over a type parameter \<open>'v\<close>;
  \<^item> an optional property \<^verbatim>\<open>x?: T\<close> is a \<open>T option\<close>, \<open>None\<close> for \<^verbatim>\<open>undefined\<close>;
  \<^item> a string is a list of code units; the accented letters of the Portuguese messages
    are written by their code (\<open>0xE3\<close> a-tilde, \<open>0xED\<close> i-acute);
  \<^item> the fields \<^verbatim>\<open>id\<close> and \<^verbatim>\<open>name\<close> occur in two interfaces and are written
    \<open>platform_id\<close>, \<open>platform_name\<close>, \<open>playlist_id\<close>, \<open>playlist_name\<close>; the keys of the
    JSON bodies that repeat a field name carry the name of their body
    (\<open>stop_success\<close>, \<open>status_success\<close>, \<open>stats_viewers\<close>, \<open>body_videos\<close>, ...).

  The two \<^verbatim>\<open>useEffect\<close> timers are scheduling and are not part of the embedding: the ten
  second poller and the poll on mount call \<^verbatim>\<open>refreshStreamStatus\<close>, which is; the one
  second ticker writes \<^verbatim>\<open>uptime\<close> and \<^verbatim>\<open>duration\<close> only.
\<close>

datatype platform_status = Connected | Disconnected | StatusError | Connecting

datatype wowza_status = Online | Offline | WowzaError

datatype stream_type = Obs | Playlist | NoStream

type_synonym Date = int

record StreamPlatform =
  platform_id :: string
  platform_name :: string
  enabled :: bool
  rtmpUrl :: "string option"
  streamKey :: "string option"
  status :: platform_status

record 'v PlaylistState =
  playlist_id :: int
  playlist_name :: string
  videos :: "'v list"
  currentVideoIndex :: int
  isPlaying :: bool
  loop :: bool
  shuffle :: bool

record 'v StreamData =
  isLive :: bool
  streamUrl :: string
  title :: string
  viewers :: int
  uptime :: string
  bitrate :: int
  startTime :: "Date option"
  duration :: int
  platforms :: "StreamPlatform list"
  wowzaStatus :: wowza_status
  applicationName :: string
  streamName :: string
  currentPlaylist :: "'v PlaylistState option"
  streamType :: stream_type

text \<open>
  \<^verbatim>\<open>Partial<StreamData>\<close> and \<^verbatim>\<open>Partial<StreamPlatform>\<close>: an object literal is the list of
  its \<^verbatim>\<open>key: value\<close> entries. A key that is written with the value \<^verbatim>\<open>undefined\<close> is an
  entry (\<open>StartTime None\<close>): the spread \<^verbatim>\<open>{...prev, ...data}\<close> copies it over \<^verbatim>\<open>prev\<close>.
\<close>

datatype 'v StreamData_entry =
    IsLive bool
  | StreamUrl string
  | Title string
  | Viewers int
  | Uptime string
  | Bitrate int
  | StartTime "Date option"
  | Duration int
  | Platforms "StreamPlatform list"
  | WowzaStatus wowza_status
  | ApplicationName string
  | StreamName string
  | CurrentPlaylist "'v PlaylistState option"
  | StreamType stream_type

datatype StreamPlatform_entry =
    PlatformId string
  | PlatformName string
  | Enabled bool
  | RtmpUrl "string option"
  | StreamKey "string option"
  | Status platform_status

fun assign :: "'v StreamData_entry \<Rightarrow> 'v StreamData \<Rightarrow> 'v StreamData" where
  "assign (IsLive b) s = s\<lparr>isLive := b\<rparr>"
| "assign (StreamUrl u) s = s\<lparr>streamUrl := u\<rparr>"
| "assign (Title t) s = s\<lparr>title := t\<rparr>"
| "assign (Viewers n) s = s\<lparr>viewers := n\<rparr>"
| "assign (Uptime u) s = s\<lparr>uptime := u\<rparr>"
| "assign (Bitrate n) s = s\<lparr>bitrate := n\<rparr>"
| "assign (StartTime d) s = s\<lparr>startTime := d\<rparr>"
| "assign (Duration n) s = s\<lparr>duration := n\<rparr>"
| "assign (Platforms ps) s = s\<lparr>platforms := ps\<rparr>"
| "assign (WowzaStatus w) s = s\<lparr>wowzaStatus := w\<rparr>"
| "assign (ApplicationName a) s = s\<lparr>applicationName := a\<rparr>"
| "assign (StreamName n) s = s\<lparr>streamName := n\<rparr>"
| "assign (CurrentPlaylist p) s = s\<lparr>currentPlaylist := p\<rparr>"
| "assign (StreamType t) s = s\<lparr>streamType := t\<rparr>"

fun assign_platform :: "StreamPlatform_entry \<Rightarrow> StreamPlatform \<Rightarrow> StreamPlatform" where
  "assign_platform (PlatformId i) p = p\<lparr>platform_id := i\<rparr>"
| "assign_platform (PlatformName n) p = p\<lparr>platform_name := n\<rparr>"
| "assign_platform (Enabled b) p = p\<lparr>enabled := b\<rparr>"
| "assign_platform (RtmpUrl u) p = p\<lparr>rtmpUrl := u\<rparr>"
| "assign_platform (StreamKey k) p = p\<lparr>streamKey := k\<rparr>"
| "assign_platform (Status st) p = p\<lparr>status := st\<rparr>"

text \<open>The spread \<^verbatim>\<open>{...prev, ...data}\<close>: the entries of \<^verbatim>\<open>data\<close> written over \<^verbatim>\<open>prev\<close>.\<close>

definition spread :: "'v StreamData \<Rightarrow> 'v StreamData_entry list \<Rightarrow> 'v StreamData" where
  "spread prev data = fold assign data prev"

definition spread_platform :: "StreamPlatform \<Rightarrow> StreamPlatform_entry list \<Rightarrow> StreamPlatform" where
  "spread_platform platform config = fold assign_platform config platform"

text \<open>The catalog \<^verbatim>\<open>defaultPlatforms\<close> and the initial value of the state cell.\<close>

definition mkPlatform :: "string \<Rightarrow> string \<Rightarrow> StreamPlatform" where
  "mkPlatform i n =
     \<lparr>platform_id = i, platform_name = n, enabled = False, rtmpUrl = None,
      streamKey = None, status = Disconnected\<rparr>"

definition defaultPlatforms :: "StreamPlatform list" where
  "defaultPlatforms =
     [mkPlatform ''youtube'' ''YouTube'',
      mkPlatform ''instagram'' ''Instagram'',
      mkPlatform ''facebook'' ''Facebook'',
      mkPlatform ''twitch'' ''Twitch'',
      mkPlatform ''vimeo'' ''Vimeo'',
      mkPlatform ''tiktok'' ''TikTok'',
      mkPlatform ''periscope'' ''Periscope'',
      mkPlatform ''kwai'' ''Kwai'',
      mkPlatform ''steam'' ''Steam Valve'',
      mkPlatform ''rtmp'' (''RTMP Pr'' @ [CHR 0xF3] @ ''prio'')]"

definition initialStreamData :: "'v StreamData" where
  "initialStreamData =
     \<lparr>isLive = False, streamUrl = [], title = [], viewers = 0, uptime = ''00:00:00'',
      bitrate = 0, startTime = None, duration = 0, platforms = defaultPlatforms,
      wowzaStatus = Offline, applicationName = ''live'', streamName = [],
      currentPlaylist = None, streamType = NoStream\<rparr>"

section \<open>Errors, promises and the remote collaborator\<close>

text \<open>
  What a \<^verbatim>\<open>throw\<close> carries: the module itself throws \<^verbatim>\<open>new Error(message)\<close>; \<^verbatim>\<open>fetch\<close>
  rejects with a \<^verbatim>\<open>TypeError\<close> on a transport failure and \<^verbatim>\<open>response.json()\<close> with a
  \<^verbatim>\<open>SyntaxError\<close> on a body that does not parse.
\<close>

datatype js_error = Error string | TypeError string | SyntaxError string

text \<open>An awaited promise either rejects (the \<^verbatim>\<open>await\<close> throws) or resolves to a value.\<close>

datatype 'a outcome = Throws js_error | Returns 'a

record 'a response =
  ok :: bool
  json :: "'a outcome"

record playlist_json =
  nome :: string

record 'v playlist_item =
  item_videos :: 'v

record 'v start_body =
  body_playlist_id :: int
  body_titulo :: string
  body_videos :: "'v list"
  body_loop :: bool
  body_shuffle :: bool

record start_result =
  success :: bool
  stream_url :: "string option"
  stream_name :: "string option"
  error :: "string option"

record stop_result =
  stop_success :: bool
  stop_error :: "string option"

record transmission_stats =
  stats_viewers :: int
  stats_bitrate :: int
  stats_uptime :: string

record transmission_json =
  titulo :: string
  stats :: transmission_stats

record status_result =
  status_success :: bool
  is_live :: bool
  transmission :: "transmission_json option"

text \<open>
  Everything an operation reads from outside the module during one call: the token, the
  answers of the five endpoints (as functions of what the request carries), the order
  \<^verbatim>\<open>sort(() => Math.random() - 0.5)\<close> leaves the videos in, the clock, and how the
  simulated platform round trip settles. In the source that round trip is
  \<^verbatim>\<open>new Promise(resolve => setTimeout(resolve, ...))\<close>, which always resolves; it is an
  input here so that the \<^verbatim>\<open>catch\<close> blocks around it are branches of the model. The
  JSON bodies have the shape section 6 of the specification gives them (a
  \<^verbatim>\<open>transmission\<close> object, when present, has its \<^verbatim>\<open>stats\<close>).
\<close>

record 'v remote =
  getToken :: "string outcome"
  fetch_playlist :: "int \<Rightarrow> playlist_json response outcome"
  fetch_videos :: "int \<Rightarrow> 'v playlist_item list response outcome"
  fetch_start :: "'v start_body \<Rightarrow> start_result response outcome"
  fetch_stop :: "stream_type \<Rightarrow> stop_result response outcome"
  fetch_status :: "status_result response outcome"
  sort_random :: "'v list \<Rightarrow> 'v list"
  now :: Date
  platform_round_trip :: "unit outcome"

record options =
  opt_loop :: "bool option"
  opt_shuffle :: "bool option"

text \<open>What one call does to the state cell, and what it throws.\<close>

record 'v effect =
  setters :: "('v StreamData \<Rightarrow> 'v StreamData) list"
  thrown :: "js_error option"

definition commit :: "'v effect \<Rightarrow> 'v StreamData \<Rightarrow> 'v StreamData" where
  "commit eff s = fold (\<lambda>f. f) (setters eff) s"

text \<open>The states the cell goes through while the setters of a call are applied.\<close>

fun observed :: "('v StreamData \<Rightarrow> 'v StreamData) list \<Rightarrow> 'v StreamData \<Rightarrow> 'v StreamData list" where
  "observed [] s = []"
| "observed (f # fs) s = f s # observed fs (f s)"

text \<open>\<^verbatim>\<open>a || b\<close> on an optional string: \<^verbatim>\<open>undefined\<close> and the empty string are falsy.\<close>

definition or_else :: "string option \<Rightarrow> string \<Rightarrow> string" where
  "or_else a b = (case a of None \<Rightarrow> b | Some x \<Rightarrow> if x = [] then b else x)"

text \<open>\<^verbatim>\<open>a ?? b\<close> on an optional boolean.\<close>

definition nullish :: "bool option \<Rightarrow> bool \<Rightarrow> bool" where
  "nullish a b = (case a of None \<Rightarrow> b | Some x \<Rightarrow> x)"

section \<open>The operations\<close>

definition updateStreamData :: "'v StreamData_entry list \<Rightarrow> 'v StreamData \<Rightarrow> 'v StreamData" where
  "updateStreamData data = (\<lambda>prev. spread prev data)"

definition updatePlatformConfig ::
  "string \<Rightarrow> StreamPlatform_entry list \<Rightarrow> 'v StreamData \<Rightarrow> 'v StreamData" where
  "updatePlatformConfig platformId config =
     (\<lambda>prev. prev\<lparr>platforms :=
        map (\<lambda>platform. if platform_id platform = platformId
                          then spread_platform platform config else platform)
          (platforms prev)\<rparr>)"

text \<open>
  A \<^verbatim>\<open>try\<close> block that ends in one \<^verbatim>\<open>updateStreamData(data)\<close>, inside
  \<^verbatim>\<open>catch (error) { console.error(...); throw error; }\<close>: the block either throws or
  reaches the update with its argument.
\<close>

definition rethrow :: "'v StreamData_entry list outcome \<Rightarrow> 'v effect" where
  "rethrow block =
     (case block of
        Throws e \<Rightarrow> \<lparr>setters = [], thrown = Some e\<rparr>
      | Returns data \<Rightarrow> \<lparr>setters = [updateStreamData data], thrown = None\<rparr>)"

definition no_effect :: "'v effect" where
  "no_effect = \<lparr>setters = [], thrown = None\<rparr>"

definition update_only :: "'v StreamData_entry list \<Rightarrow> 'v effect" where
  "update_only data = \<lparr>setters = [updateStreamData data], thrown = None\<rparr>"

subsection \<open>Platform connector\<close>

definition connectToPlatform :: "'v remote \<Rightarrow> string \<Rightarrow> 'v effect" where
  "connectToPlatform r platformId =
     (case platform_round_trip r of
        Returns u \<Rightarrow>
          \<lparr>setters = [updatePlatformConfig platformId [Status Connecting],
                      updatePlatformConfig platformId [Status Connected]],
           thrown = None\<rparr>
      | Throws e \<Rightarrow>
          \<lparr>setters = [updatePlatformConfig platformId [Status Connecting],
                      updatePlatformConfig platformId [Status StatusError]],
           thrown = Some e\<rparr>)"

definition disconnectFromPlatform :: "'v remote \<Rightarrow> string \<Rightarrow> 'v effect" where
  "disconnectFromPlatform r platformId =
     (case platform_round_trip r of
        Returns u \<Rightarrow>
          \<lparr>setters = [updatePlatformConfig platformId [Status Disconnected]], thrown = None\<rparr>
      | Throws e \<Rightarrow>
          \<lparr>setters = [updatePlatformConfig platformId [Status StatusError]], thrown = Some e\<rparr>)"

subsection \<open>Session orchestrator\<close>

definition msg_playlist_not_found :: string where
  "msg_playlist_not_found = ''Playlist n'' @ [CHR 0xE3] @ ''o encontrada''"

definition msg_videos_load_failed :: string where
  "msg_videos_load_failed = ''Erro ao carregar v'' @ [CHR 0xED] @ ''deos da playlist''"

definition msg_playlist_empty :: string where
  "msg_playlist_empty = ''Playlist n'' @ [CHR 0xE3] @ ''o possui v'' @ [CHR 0xED] @ ''deos''"

definition msg_start_failed :: string where
  "msg_start_failed = ''Erro ao iniciar playlist''"

definition msg_stop_failed :: string where
  "msg_stop_failed = ''Erro ao parar transmiss'' @ [CHR 0xE3] @ ''o''"

text \<open>The \<^verbatim>\<open>try\<close> block of \<^verbatim>\<open>startPlaylistStream\<close>, statement by statement.\<close>

definition startPlaylistStream_try ::
  "'v remote \<Rightarrow> int \<Rightarrow> options \<Rightarrow> 'v StreamData_entry list outcome" where
  "startPlaylistStream_try r playlistId opts =
     (case getToken r of Throws e \<Rightarrow> Throws e | Returns token \<Rightarrow>
      case fetch_playlist r playlistId of Throws e \<Rightarrow> Throws e | Returns playlistResponse \<Rightarrow>
      if \<not> ok playlistResponse then Throws (Error msg_playlist_not_found) else
      case json playlistResponse of Throws e \<Rightarrow> Throws e | Returns playlist \<Rightarrow>
      case fetch_videos r playlistId of Throws e \<Rightarrow> Throws e | Returns videosResponse \<Rightarrow>
      if \<not> ok videosResponse then Throws (Error msg_videos_load_failed) else
      case json videosResponse of Throws e \<Rightarrow> Throws e | Returns playlistVideos \<Rightarrow>
      let videos = map item_videos playlistVideos in
      if length videos = 0 then Throws (Error msg_playlist_empty) else
      let finalVideos = (if opt_shuffle opts = Some True then sort_random r videos else videos) in
      case fetch_start r
             \<lparr>body_playlist_id = playlistId, body_titulo = nome playlist,
              body_videos = finalVideos, body_loop = nullish (opt_loop opts) True,
              body_shuffle = nullish (opt_shuffle opts) False\<rparr>
      of Throws e \<Rightarrow> Throws e | Returns response \<Rightarrow>
      case json response of Throws e \<Rightarrow> Throws e | Returns result \<Rightarrow>
      if success result then
        Returns
          [IsLive True,
           StreamUrl (or_else (stream_url result) []),
           StreamName (or_else (stream_name result) []),
           Title (nome playlist),
           StartTime (Some (now r)),
           Viewers 0,
           Bitrate 2500,
           WowzaStatus Online,
           StreamType Playlist,
           CurrentPlaylist (Some
             \<lparr>playlist_id = playlistId, playlist_name = nome playlist, videos = finalVideos,
              currentVideoIndex = 0, isPlaying = True,
              loop = nullish (opt_loop opts) True,
              shuffle = nullish (opt_shuffle opts) False\<rparr>)]
      else Throws (Error (or_else (error result) msg_start_failed)))"

definition startPlaylistStream :: "'v remote \<Rightarrow> int \<Rightarrow> options \<Rightarrow> 'v effect" where
  "startPlaylistStream r playlistId opts = rethrow (startPlaylistStream_try r playlistId opts)"

definition stopStream_try :: "'v remote \<Rightarrow> 'v StreamData \<Rightarrow> 'v StreamData_entry list outcome" where
  "stopStream_try r streamData =
     (case getToken r of Throws e \<Rightarrow> Throws e | Returns token \<Rightarrow>
      case fetch_stop r (streamType streamData) of Throws e \<Rightarrow> Throws e | Returns response \<Rightarrow>
      case json response of Throws e \<Rightarrow> Throws e | Returns result \<Rightarrow>
      if stop_success result then
        Returns
          [IsLive False,
           StreamUrl [],
           Viewers 0,
           Uptime ''00:00:00'',
           Bitrate 0,
           Duration 0,
           StartTime None,
           WowzaStatus Offline,
           StreamName [],
           StreamType NoStream,
           CurrentPlaylist None]
      else Throws (Error (or_else (stop_error result) msg_stop_failed)))"

definition stopStream :: "'v remote \<Rightarrow> 'v StreamData \<Rightarrow> 'v effect" where
  "stopStream r streamData = rethrow (stopStream_try r streamData)"

subsection \<open>Status poll\<close>

definition refreshStreamStatus_try :: "'v remote \<Rightarrow> 'v StreamData_entry list outcome" where
  "refreshStreamStatus_try r =
     (case getToken r of Throws e \<Rightarrow> Throws e | Returns token \<Rightarrow>
      case fetch_status r of Throws e \<Rightarrow> Throws e | Returns response \<Rightarrow>
      case json response of Throws e \<Rightarrow> Throws e | Returns result \<Rightarrow>
      (case (status_success result, is_live result, transmission result) of
         (True, True, Some tr) \<Rightarrow>
           Returns
             [IsLive True,
              Viewers (stats_viewers (stats tr)),
              Bitrate (stats_bitrate (stats tr)),
              Uptime (stats_uptime (stats tr)),
              Title (titulo tr),
              WowzaStatus Online]
       | _ \<Rightarrow>
           Returns
             [IsLive False,
              Viewers 0,
              Bitrate 0,
              Uptime ''00:00:00'',
              WowzaStatus Offline]))"

text \<open>
  The \<^verbatim>\<open>catch\<close> of \<^verbatim>\<open>refreshStreamStatus\<close> does not rethrow: it logs and issues
  \<^verbatim>\<open>updateStreamData({ wowzaStatus: 'error' })\<close>.
\<close>

definition refreshStreamStatus :: "'v remote \<Rightarrow> 'v effect" where
  "refreshStreamStatus r =
     (case refreshStreamStatus_try r of
        Returns data \<Rightarrow> update_only data
      | Throws e \<Rightarrow> update_only [WowzaStatus WowzaError])"

subsection \<open>Playlist navigation\<close>

text \<open>
  \<^verbatim>\<open>nextVideo\<close> calls \<^verbatim>\<open>stopStream()\<close> without awaiting it and returns: the setters of that
  call reach the state cell, its rejection reaches nobody.
\<close>

definition nextVideo :: "'v remote \<Rightarrow> 'v StreamData \<Rightarrow> 'v effect" where
  "nextVideo r streamData =
     (case currentPlaylist streamData of
        None \<Rightarrow> no_effect
      | Some cp \<Rightarrow>
          let nextIndex = currentVideoIndex cp + 1 in
          if nextIndex \<ge> int (length (videos cp)) then
            if loop cp then
              update_only [CurrentPlaylist (Some (cp\<lparr>currentVideoIndex := 0\<rparr>))]
            else \<lparr>setters = setters (stopStream r streamData), thrown = None\<rparr>
          else update_only [CurrentPlaylist (Some (cp\<lparr>currentVideoIndex := nextIndex\<rparr>))])"

definition previousVideo :: "'v StreamData \<Rightarrow> 'v effect" where
  "previousVideo streamData =
     (case currentPlaylist streamData of
        None \<Rightarrow> no_effect
      | Some cp \<Rightarrow>
          let prevIndex = currentVideoIndex cp - 1;
              prevIndex = (if prevIndex < 0 then int (length (videos cp)) - 1 else prevIndex)
          in update_only [CurrentPlaylist (Some (cp\<lparr>currentVideoIndex := prevIndex\<rparr>))])"

definition playVideo :: "'v StreamData \<Rightarrow> int \<Rightarrow> 'v effect" where
  "playVideo streamData index =
     (case currentPlaylist streamData of
        None \<Rightarrow> no_effect
      | Some cp \<Rightarrow>
          if index \<ge> 0 \<and> index < int (length (videos cp)) then
            update_only [CurrentPlaylist (Some (cp\<lparr>currentVideoIndex := index\<rparr>))]
          else no_effect)"

definition togglePlayPause :: "'v StreamData \<Rightarrow> 'v effect" where
  "togglePlayPause streamData =
     (case currentPlaylist streamData of
        None \<Rightarrow> no_effect
      | Some cp \<Rightarrow> update_only [CurrentPlaylist (Some (cp\<lparr>isPlaying := \<not> isPlaying cp\<rparr>))])"

section \<open>Sessions: calls made from the renders of the provider\<close>

text \<open>
  A command is a call of one of the operations the provider exports. The raw setter
  \<^verbatim>\<open>updateStreamData\<close>, which writes whatever its caller passes, is not a command.
\<close>

datatype command =
    StartPlaylistStream int options
  | StopStream
  | RefreshStreamStatus
  | NextVideo
  | PreviousVideo
  | PlayVideo int
  | TogglePlayPause
  | UpdatePlatformConfig string "StreamPlatform_entry list"
  | ConnectToPlatform string
  | DisconnectFromPlatform string

text \<open>
  The third argument of \<open>perform\<close> is the snapshot \<^verbatim>\<open>streamData\<close> that the closure of the
  called function holds: the value of the state cell at the render that created the
  function. It need not be the value of the cell when the setters land.
\<close>

fun perform :: "'v remote \<Rightarrow> command \<Rightarrow> 'v StreamData \<Rightarrow> 'v effect" where
  "perform r (StartPlaylistStream playlistId opts) s = startPlaylistStream r playlistId opts"
| "perform r StopStream s = stopStream r s"
| "perform r RefreshStreamStatus s = refreshStreamStatus r"
| "perform r NextVideo s = nextVideo r s"
| "perform r PreviousVideo s = previousVideo s"
| "perform r (PlayVideo index) s = playVideo s index"
| "perform r TogglePlayPause s = togglePlayPause s"
| "perform r (UpdatePlatformConfig platformId config) s =
     \<lparr>setters = [updatePlatformConfig platformId config], thrown = None\<rparr>"
| "perform r (ConnectToPlatform platformId) s = connectToPlatform r platformId"
| "perform r (DisconnectFromPlatform platformId) s = disconnectFromPlatform r platformId"

text \<open>
  Every \<^verbatim>\<open>setStreamData\<close> makes the provider render again with the new value of the cell, and
  every render creates the exported functions anew, closed over that value. A consumer may
  call the function of the current render or one it kept from an earlier render (a handler
  that does \<^verbatim>\<open>await stopStream(); togglePlayPause()\<close> calls \<^verbatim>\<open>togglePlayPause\<close> of the render
  before the stop). A call is therefore a command, what the outside world answers during it,
  and how many renders back the called function was created (\<open>0\<close> for the current render).

  \<open>renders\<close> keeps the values of the cell at all renders so far, newest first: the head is
  the cell. The setters of a call read the called render's snapshot through the closure and
  land on the cell one after the other, each giving a new render. A call whose setter lands
  only after later calls is the same call made later from the older render, and the two
  setters of \<^verbatim>\<open>connectToPlatform\<close> landing apart are two \<^verbatim>\<open>updatePlatformConfig\<close> calls, so the
  lists \<open>renders cs [initialStreamData]\<close> hold every value the cell can take.
\<close>

type_synonym 'v call = "'v remote \<times> command \<times> nat"

fun renders :: "'v call list \<Rightarrow> 'v StreamData list \<Rightarrow> 'v StreamData list" where
  "renders [] hist = hist"
| "renders (call # cs) [] = []"
| "renders ((r, cmd, k) # cs) (s # past) =
     renders cs
       (rev (observed (setters (perform r cmd ((s # past) ! min k (length past)))) s)
        @ s # past)"

section \<open>Notions used to state the properties\<close>

text \<open>
  The statuses of the catalog entries with a given id, in catalog order: what an observer
  of "that platform's status" reads. The list is empty for an id the catalog does not have.
\<close>

definition status_of :: "string \<Rightarrow> 'v StreamData \<Rightarrow> platform_status list" where
  "status_of platformId s =
     map status (filter (\<lambda>p. platform_id p = platformId) (platforms s))"

text \<open>
  Three relations between the optional fields, the session kind and the live flag: the
  start time is there exactly in a playlist session, which has a playback state; the
  playback state is there exactly in a playlist session; the start time is there exactly
  while the session is flagged live.
\<close>

definition anchored :: "'v StreamData \<Rightarrow> bool" where
  "anchored s \<longleftrightarrow>
     (startTime s \<noteq> None) = (streamType s = Playlist)
     \<and> (streamType s = Playlist \<longrightarrow> currentPlaylist s \<noteq> None)"

definition presence :: "'v StreamData \<Rightarrow> bool" where
  "presence s \<longleftrightarrow> (currentPlaylist s \<noteq> None) = (streamType s = Playlist)"

definition timed :: "'v StreamData \<Rightarrow> bool" where
  "timed s \<longleftrightarrow> (startTime s \<noteq> None) = isLive s"

text \<open>The playback navigation commands, and the sessions that call them from the current
  render only.\<close>

fun navigation :: "command \<Rightarrow> bool" where
  "navigation NextVideo = True"
| "navigation PreviousVideo = True"
| "navigation (PlayVideo index) = True"
| "navigation TogglePlayPause = True"
| "navigation cmd = False"

fun current_render :: "'v call \<Rightarrow> bool" where
  "current_render (r, cmd, k) = (navigation cmd \<longrightarrow> k = 0)"

definition fresh_navigation :: "'v call list \<Rightarrow> bool" where
  "fresh_navigation cs = list_all current_render cs"

text \<open>
  What a status poll reads when it is answered, whether that answer sends it down the live
  branch, and the polls that leave the live flag in step with the start time of the cell
  they land on: the ones that fail, and the ones whose answer reports live exactly when
  the cell has a start time.
\<close>

definition poll_answer :: "'v remote \<Rightarrow> status_result option" where
  "poll_answer r =
     (case getToken r of Throws e \<Rightarrow> None | Returns token \<Rightarrow>
      case fetch_status r of Throws e \<Rightarrow> None | Returns response \<Rightarrow>
      case json response of Throws e \<Rightarrow> None | Returns result \<Rightarrow> Some result)"

definition reports_live :: "status_result \<Rightarrow> bool" where
  "reports_live result \<longleftrightarrow>
     status_success result \<and> is_live result \<and> transmission result \<noteq> None"

definition poll_agrees :: "'v remote \<Rightarrow> 'v StreamData \<Rightarrow> bool" where
  "poll_agrees r s =
     (case poll_answer r of
        None \<Rightarrow> True
      | Some result \<Rightarrow> reports_live result = (startTime s \<noteq> None))"

fun polls_agree :: "'v call list \<Rightarrow> 'v StreamData list \<Rightarrow> bool" where
  "polls_agree [] hist = True"
| "polls_agree (call # cs) [] = True"
| "polls_agree ((r, cmd, k) # cs) (s # past) =
     ((cmd = RefreshStreamStatus \<longrightarrow> poll_agrees r s)
      \<and> polls_agree cs (renders [(r, cmd, k)] (s # past)))"

section \<open>Concrete remotes and snapshots\<close>

text \<open>
  A remote collaborator that answers every request favourably (playlist 7 is called Mix and
  has three videos; the status endpoint reports a live transmission with 120 viewers), and
  variants of it in which one answer is different.
\<close>

definition demo_remote :: "nat remote" where
  "demo_remote =
     \<lparr>getToken = Returns ''token'',
      fetch_playlist = (\<lambda>i. Returns \<lparr>ok = True, json = Returns \<lparr>nome = ''Mix''\<rparr>\<rparr>),
      fetch_videos = (\<lambda>i. Returns \<lparr>ok = True,
         json = Returns [\<lparr>item_videos = 10\<rparr>, \<lparr>item_videos = 20\<rparr>, \<lparr>item_videos = 30\<rparr>]\<rparr>),
      fetch_start = (\<lambda>b. Returns \<lparr>ok = True,
         json = Returns \<lparr>success = True, stream_url = Some ''rtmp://host/live'',
                         stream_name = Some ''mix'', error = None\<rparr>\<rparr>),
      fetch_stop = (\<lambda>t. Returns \<lparr>ok = True,
         json = Returns \<lparr>stop_success = True, stop_error = None\<rparr>\<rparr>),
      fetch_status = Returns \<lparr>ok = True,
         json = Returns \<lparr>status_success = True, is_live = True,
           transmission = Some \<lparr>titulo = ''Mix'',
             stats = \<lparr>stats_viewers = 120, stats_bitrate = 3000,
                      stats_uptime = ''00:05:00''\<rparr>\<rparr>\<rparr>\<rparr>,
      sort_random = rev,
      now = 1000,
      platform_round_trip = Returns ()\<rparr>"

definition demo_options :: options where
  "demo_options = \<lparr>opt_loop = None, opt_shuffle = None\<rparr>"

definition demo_not_live_response :: "status_result response" where
  "demo_not_live_response =
     \<lparr>ok = True,
      json = Returns \<lparr>status_success = True, is_live = False, transmission = None\<rparr>\<rparr>"

definition demo_not_live :: "nat remote" where
  "demo_not_live = demo_remote\<lparr>fetch_status := Returns demo_not_live_response\<rparr>"

definition demo_no_transmission_response :: "status_result response" where
  "demo_no_transmission_response =
     \<lparr>ok = True,
      json = Returns \<lparr>status_success = True, is_live = True, transmission = None\<rparr>\<rparr>"

definition demo_no_transmission :: "nat remote" where
  "demo_no_transmission = demo_remote\<lparr>fetch_status := Returns demo_no_transmission_response\<rparr>"

definition demo_status_unreachable :: "nat remote" where
  "demo_status_unreachable = demo_remote\<lparr>fetch_status := Throws (TypeError ''Failed to fetch'')\<rparr>"

definition demo_stop_rejected_response :: "stop_result response" where
  "demo_stop_rejected_response =
     \<lparr>ok = False, json = Returns \<lparr>stop_success = False, stop_error = Some ''busy''\<rparr>\<rparr>"

definition demo_stop_rejected :: "nat remote" where
  "demo_stop_rejected = demo_remote\<lparr>fetch_stop := (\<lambda>t. Returns demo_stop_rejected_response)\<rparr>"

definition demo_stop_unreachable :: "nat remote" where
  "demo_stop_unreachable =
     demo_remote\<lparr>fetch_stop := (\<lambda>t. Throws (TypeError ''Failed to fetch''))\<rparr>"

definition demo_playlist_missing_response :: "playlist_json response" where
  "demo_playlist_missing_response = \<lparr>ok = False, json = Throws (SyntaxError ''Unexpected token'')\<rparr>"

definition demo_playlist_missing :: "nat remote" where
  "demo_playlist_missing =
     demo_remote\<lparr>fetch_playlist := (\<lambda>i. Returns demo_playlist_missing_response)\<rparr>"

definition demo_playlist_empty :: "nat remote" where
  "demo_playlist_empty =
     demo_remote\<lparr>fetch_videos := (\<lambda>i. Returns \<lparr>ok = True, json = Returns []\<rparr>)\<rparr>"

definition demo_start_rejected_response :: "start_result response" where
  "demo_start_rejected_response =
     \<lparr>ok = False,
      json = Returns \<lparr>success = False, stream_url = None, stream_name = None,
                      error = Some ''quota exceeded''\<rparr>\<rparr>"

definition demo_start_rejected :: "nat remote" where
  "demo_start_rejected =
     demo_remote\<lparr>fetch_start := (\<lambda>b. Returns demo_start_rejected_response)\<rparr>"

definition demo_start_unreachable :: "nat remote" where
  "demo_start_unreachable =
     demo_remote\<lparr>fetch_start := (\<lambda>b. Throws (TypeError ''Failed to fetch''))\<rparr>"

definition demo_round_trip_fails :: "nat remote" where
  "demo_round_trip_fails = demo_remote\<lparr>platform_round_trip := Throws (Error ''timeout'')\<rparr>"

definition demo_lookup_unreachable :: "nat remote" where
  "demo_lookup_unreachable =
     demo_remote\<lparr>fetch_playlist := (\<lambda>i. Throws (TypeError ''Failed to fetch''))\<rparr>"

definition demo_start_no_reason_response :: "start_result response" where
  "demo_start_no_reason_response =
     \<lparr>ok = False,
      json = Returns \<lparr>success = False, stream_url = None, stream_name = None,
                      error = Some []\<rparr>\<rparr>"

definition demo_start_no_reason :: "nat remote" where
  "demo_start_no_reason =
     demo_remote\<lparr>fetch_start := (\<lambda>b. Returns demo_start_no_reason_response)\<rparr>"

text \<open>The snapshot after playlist 7 was started, and the one at the last video of a
  playlist that does not loop.\<close>

definition demo_started :: "nat StreamData" where
  "demo_started = commit (startPlaylistStream demo_remote 7 demo_options) initialStreamData"

definition demo_started_no_loop :: "nat StreamData" where
  "demo_started_no_loop =
     commit (startPlaylistStream demo_remote 7 \<lparr>opt_loop = Some False, opt_shuffle = None\<rparr>)
       initialStreamData"

definition demo_last_video :: "nat StreamData" where
  "demo_last_video = commit (playVideo demo_started_no_loop 2) demo_started_no_loop"

text \<open>
  Three sessions. In the first every call is made from the current render and every poll
  agrees with the cell: the poll on mount finds nothing live, playlist 7 is started, a
  poll finds it live, the next video is played, the stream is stopped. In the second a
  poll on mount finds a transmission live that this provider did not start. In the third
  \<^verbatim>\<open>togglePlayPause\<close> is called from the render before the stop.
\<close>

definition demo_session :: "nat call list" where
  "demo_session =
     [(demo_not_live, RefreshStreamStatus, 0),
      (demo_remote, StartPlaylistStream 7 demo_options, 0),
      (demo_remote, RefreshStreamStatus, 0),
      (demo_remote, NextVideo, 0),
      (demo_remote, StopStream, 0)]"

definition demo_polled_session :: "nat call list" where
  "demo_polled_session =
     [(demo_remote, StartPlaylistStream 7 demo_options, 0),
      (demo_not_live, RefreshStreamStatus, 0)]"

definition demo_stale_session :: "nat call list" where
  "demo_stale_session =
     [(demo_remote, StartPlaylistStream 7 demo_options, 0),
      (demo_remote, StopStream, 0),
      (demo_remote, TogglePlayPause, 1)]"

section \<open>Auxiliary facts\<close>

lemmas eff_defs =
  commit_def spread_def updateStreamData_def update_only_def rethrow_def no_effect_def

lemmas demo_defs =
  demo_remote_def demo_options_def demo_not_live_def demo_not_live_response_def
  demo_no_transmission_def demo_no_transmission_response_def demo_status_unreachable_def
  demo_stop_rejected_def demo_stop_rejected_response_def demo_stop_unreachable_def
  demo_playlist_missing_def demo_playlist_missing_response_def demo_playlist_empty_def
  demo_start_rejected_def demo_start_rejected_response_def demo_start_unreachable_def
  demo_round_trip_fails_def demo_lookup_unreachable_def demo_start_no_reason_def
  demo_start_no_reason_response_def

lemma demo_started_eq:
  "demo_started =
     \<lparr>isLive = True, streamUrl = ''rtmp://host/live'', title = ''Mix'', viewers = 0,
      uptime = ''00:00:00'', bitrate = 2500, startTime = Some 1000, duration = 0,
      platforms = defaultPlatforms, wowzaStatus = Online, applicationName = ''live'',
      streamName = ''mix'',
      currentPlaylist = Some \<lparr>playlist_id = 7, playlist_name = ''Mix'', videos = [10, 20, 30],
        currentVideoIndex = 0, isPlaying = True, loop = True, shuffle = False\<rparr>,
      streamType = Playlist\<rparr>"
  by (simp add: demo_started_def demo_defs initialStreamData_def
        startPlaylistStream_def startPlaylistStream_try_def eff_defs nullish_def or_else_def)

lemma demo_last_video_eq:
  "demo_last_video =
     \<lparr>isLive = True, streamUrl = ''rtmp://host/live'', title = ''Mix'', viewers = 0,
      uptime = ''00:00:00'', bitrate = 2500, startTime = Some 1000, duration = 0,
      platforms = defaultPlatforms, wowzaStatus = Online, applicationName = ''live'',
      streamName = ''mix'',
      currentPlaylist = Some \<lparr>playlist_id = 7, playlist_name = ''Mix'', videos = [10, 20, 30],
        currentVideoIndex = 2, isPlaying = True, loop = False, shuffle = False\<rparr>,
      streamType = Playlist\<rparr>"
  by (simp add: demo_last_video_def demo_started_no_loop_def demo_defs initialStreamData_def
        startPlaylistStream_def startPlaylistStream_try_def playVideo_def eff_defs
        nullish_def or_else_def)

subsection \<open>Statuses after a configuration update\<close>

lemma status_after_config:
  "map status (filter (\<lambda>p. platform_id p = pid)
     (map (\<lambda>platform. if platform_id platform = pid
                        then spread_platform platform [Status st] else platform) ps))
   = replicate (length (filter (\<lambda>p. platform_id p = pid) ps)) st"
  by (induction ps) (simp_all add: spread_platform_def)

lemma status_of_updatePlatformConfig:
  "status_of pid (updatePlatformConfig pid [Status st] s)
     = replicate (length (status_of pid s)) st"
  by (simp add: status_of_def updatePlatformConfig_def status_after_config)

lemma status_of_defaultPlatforms:
  "status_of ''youtube'' (initialStreamData :: nat StreamData) = [Disconnected]"
  by (simp add: status_of_def initialStreamData_def defaultPlatforms_def mkPlatform_def)

lemmas op_defs =
  startPlaylistStream_def startPlaylistStream_try_def stopStream_def stopStream_try_def
  refreshStreamStatus_def refreshStreamStatus_try_def nextVideo_def previousVideo_def
  playVideo_def togglePlayPause_def connectToPlatform_def disconnectFromPlatform_def
  updatePlatformConfig_def

subsection \<open>What the setters of each operation write\<close>

lemma start_data:
  "startPlaylistStream_try r playlistId opts = Returns data \<Longrightarrow>
   \<exists>u n t d cp. data =
      [IsLive True, StreamUrl u, StreamName n, Title t, StartTime (Some d), Viewers 0,
       Bitrate 2500, WowzaStatus Online, StreamType Playlist, CurrentPlaylist (Some cp)]"
  by (auto simp add: startPlaylistStream_try_def Let_def split: outcome.splits if_splits)

lemma start_observed:
  assumes "s' \<in> set (observed (setters (startPlaylistStream r playlistId opts)) s)"
  shows "isLive s' \<and> startTime s' \<noteq> None \<and> currentPlaylist s' \<noteq> None
         \<and> streamType s' = Playlist"
proof (cases "startPlaylistStream_try r playlistId opts")
  case (Throws e)
  with assms show ?thesis by (simp add: startPlaylistStream_def rethrow_def)
next
  case (Returns data)
  from start_data [OF Returns] obtain u n t d cp where
    "data = [IsLive True, StreamUrl u, StreamName n, Title t, StartTime (Some d), Viewers 0,
             Bitrate 2500, WowzaStatus Online, StreamType Playlist, CurrentPlaylist (Some cp)]"
    by blast
  with assms Returns show ?thesis
    by (simp add: startPlaylistStream_def rethrow_def updateStreamData_def spread_def)
qed

lemma stop_data:
  "stopStream_try r c = Returns data \<Longrightarrow>
   data = [IsLive False, StreamUrl [], Viewers 0, Uptime ''00:00:00'', Bitrate 0, Duration 0,
           StartTime None, WowzaStatus Offline, StreamName [], StreamType NoStream,
           CurrentPlaylist None]"
  by (auto simp add: stopStream_try_def split: outcome.splits if_splits)

lemma stop_observed:
  assumes "s' \<in> set (observed (setters (stopStream r c)) s)"
  shows "\<not> isLive s' \<and> startTime s' = None \<and> currentPlaylist s' = None
         \<and> streamType s' = NoStream"
proof (cases "stopStream_try r c")
  case (Throws e)
  with assms show ?thesis by (simp add: stopStream_def rethrow_def)
next
  case (Returns data)
  with assms stop_data [OF Returns] show ?thesis
    by (simp add: stopStream_def rethrow_def updateStreamData_def spread_def)
qed

lemma refresh_data:
  "refreshStreamStatus_try r = Throws e \<Longrightarrow> poll_answer r = None"
  "refreshStreamStatus_try r = Returns data \<Longrightarrow>
   \<exists>result. poll_answer r = Some result \<and>
     ((reports_live result \<and> (\<exists>v b u t. data =
         [IsLive True, Viewers v, Bitrate b, Uptime u, Title t, WowzaStatus Online]))
      \<or> (\<not> reports_live result \<and> data =
         [IsLive False, Viewers 0, Bitrate 0, Uptime ''00:00:00'', WowzaStatus Offline]))"
  by (auto simp add: refreshStreamStatus_try_def poll_answer_def reports_live_def
        split: outcome.splits bool.splits option.splits)

lemma refresh_observed:
  assumes "s' \<in> set (observed (setters (refreshStreamStatus r)) s)"
  shows "startTime s' = startTime s \<and> currentPlaylist s' = currentPlaylist s
         \<and> streamType s' = streamType s
         \<and> (case poll_answer r of
               None \<Rightarrow> isLive s' = isLive s
             | Some result \<Rightarrow> isLive s' = reports_live result)"
proof (cases "refreshStreamStatus_try r")
  case (Throws e)
  with assms refresh_data(1) [OF Throws] show ?thesis
    by (simp add: refreshStreamStatus_def update_only_def updateStreamData_def spread_def)
next
  case (Returns data)
  with assms refresh_data(2) [OF Returns] show ?thesis
    by (auto simp add: refreshStreamStatus_def update_only_def updateStreamData_def spread_def)
qed

lemma navigate_observed:
  assumes "s' \<in> set (observed (setters (previousVideo c)) s)
           \<or> s' \<in> set (observed (setters (playVideo c index)) s)
           \<or> s' \<in> set (observed (setters (togglePlayPause c)) s)"
  shows "isLive s' = isLive s \<and> startTime s' = startTime s \<and> streamType s' = streamType s
         \<and> currentPlaylist c \<noteq> None \<and> currentPlaylist s' \<noteq> None"
  using assms
  by (cases "currentPlaylist c")
     (auto simp add: previousVideo_def playVideo_def togglePlayPause_def Let_def
        update_only_def no_effect_def updateStreamData_def spread_def split: if_splits)

lemma next_observed:
  assumes "s' \<in> set (observed (setters (nextVideo r c)) s)"
  shows "(isLive s' = isLive s \<and> startTime s' = startTime s \<and> streamType s' = streamType s
          \<and> currentPlaylist c \<noteq> None \<and> currentPlaylist s' \<noteq> None)
         \<or> (\<not> isLive s' \<and> startTime s' = None \<and> currentPlaylist s' = None
             \<and> streamType s' = NoStream)"
proof (cases "currentPlaylist c")
  case None
  with assms show ?thesis by (simp add: nextVideo_def no_effect_def)
next
  case (Some cp)
  show ?thesis
  proof (cases "currentVideoIndex cp + 1 \<ge> int (length (videos cp)) \<and> \<not> loop cp")
    case True
    with assms Some have "s' \<in> set (observed (setters (stopStream r c)) s)"
      by (simp add: nextVideo_def Let_def)
    from stop_observed [OF this] show ?thesis by simp
  next
    case False
    with assms Some show ?thesis
      by (auto simp add: nextVideo_def Let_def update_only_def updateStreamData_def spread_def
            split: if_splits)
  qed
qed

lemma platform_fields:
  "isLive (updatePlatformConfig platformId config s) = isLive s"
  "startTime (updatePlatformConfig platformId config s) = startTime s"
  "streamType (updatePlatformConfig platformId config s) = streamType s"
  "currentPlaylist (updatePlatformConfig platformId config s) = currentPlaylist s"
  by (simp_all add: updatePlatformConfig_def)

lemma platform_observed:
  assumes "s' \<in> set (observed (setters (connectToPlatform r platformId)) s)
           \<or> s' \<in> set (observed (setters (disconnectFromPlatform r platformId)) s)
           \<or> s' = updatePlatformConfig platformId config s"
  shows "isLive s' = isLive s \<and> startTime s' = startTime s \<and> streamType s' = streamType s
         \<and> currentPlaylist s' = currentPlaylist s"
  using assms
  by (cases "platform_round_trip r")
     (auto simp add: connectToPlatform_def disconnectFromPlatform_def platform_fields)

subsection \<open>What one call keeps\<close>

lemma anchored_call:
  assumes "anchored s" and "s' \<in> set (observed (setters (perform r cmd c)) s)"
  shows "anchored s'"
proof (cases cmd)
  case (StartPlaylistStream playlistId opts)
  with assms start_observed [of s' r playlistId opts s] show ?thesis
    by (simp add: anchored_def)
next
  case StopStream
  with assms stop_observed [of s' r c s] show ?thesis by (simp add: anchored_def)
next
  case RefreshStreamStatus
  with assms refresh_observed [of s' r s] show ?thesis by (simp add: anchored_def)
next
  case NextVideo
  with assms next_observed [of s' r c s] show ?thesis by (auto simp add: anchored_def)
next
  case PreviousVideo
  with assms navigate_observed [of s' c s] show ?thesis by (simp add: anchored_def)
next
  case (PlayVideo index)
  with assms navigate_observed [of s' c s index] show ?thesis by (simp add: anchored_def)
next
  case TogglePlayPause
  with assms navigate_observed [of s' c s] show ?thesis by (simp add: anchored_def)
next
  case (UpdatePlatformConfig platformId config)
  with assms platform_observed [of s' r platformId s config] show ?thesis
    by (simp add: anchored_def)
next
  case (ConnectToPlatform platformId)
  with assms platform_observed [of s' r platformId s] show ?thesis
    by (simp add: anchored_def)
next
  case (DisconnectFromPlatform platformId)
  with assms platform_observed [of s' r platformId s] show ?thesis
    by (simp add: anchored_def)
qed

lemma presence_call:
  assumes "presence s" and "navigation cmd \<longrightarrow> c = s"
    and "s' \<in> set (observed (setters (perform r cmd c)) s)"
  shows "presence s'"
proof (cases cmd)
  case (StartPlaylistStream playlistId opts)
  with assms start_observed [of s' r playlistId opts s] show ?thesis
    by (simp add: presence_def)
next
  case StopStream
  with assms stop_observed [of s' r c s] show ?thesis by (simp add: presence_def)
next
  case RefreshStreamStatus
  with assms refresh_observed [of s' r s] show ?thesis by (simp add: presence_def)
next
  case NextVideo
  with assms next_observed [of s' r c s] show ?thesis by (auto simp add: presence_def)
next
  case PreviousVideo
  with assms navigate_observed [of s' c s] show ?thesis by (auto simp add: presence_def)
next
  case (PlayVideo index)
  with assms navigate_observed [of s' c s index] show ?thesis by (auto simp add: presence_def)
next
  case TogglePlayPause
  with assms navigate_observed [of s' c s] show ?thesis by (auto simp add: presence_def)
next
  case (UpdatePlatformConfig platformId config)
  with assms platform_observed [of s' r platformId s config] show ?thesis
    by (simp add: presence_def)
next
  case (ConnectToPlatform platformId)
  with assms platform_observed [of s' r platformId s] show ?thesis
    by (simp add: presence_def)
next
  case (DisconnectFromPlatform platformId)
  with assms platform_observed [of s' r platformId s] show ?thesis
    by (simp add: presence_def)
qed

lemma timed_call:
  assumes "timed s" and "cmd = RefreshStreamStatus \<longrightarrow> poll_agrees r s"
    and "s' \<in> set (observed (setters (perform r cmd c)) s)"
  shows "timed s'"
proof (cases cmd)
  case (StartPlaylistStream playlistId opts)
  with assms start_observed [of s' r playlistId opts s] show ?thesis
    by (simp add: timed_def)
next
  case StopStream
  with assms stop_observed [of s' r c s] show ?thesis by (simp add: timed_def)
next
  case RefreshStreamStatus
  with assms refresh_observed [of s' r s] show ?thesis
    by (auto simp add: timed_def poll_agrees_def split: option.splits)
next
  case NextVideo
  with assms next_observed [of s' r c s] show ?thesis by (auto simp add: timed_def)
next
  case PreviousVideo
  with assms navigate_observed [of s' c s] show ?thesis by (simp add: timed_def)
next
  case (PlayVideo index)
  with assms navigate_observed [of s' c s index] show ?thesis by (simp add: timed_def)
next
  case TogglePlayPause
  with assms navigate_observed [of s' c s] show ?thesis by (simp add: timed_def)
next
  case (UpdatePlatformConfig platformId config)
  with assms platform_observed [of s' r platformId s config] show ?thesis
    by (simp add: timed_def)
next
  case (ConnectToPlatform platformId)
  with assms platform_observed [of s' r platformId s] show ?thesis
    by (simp add: timed_def)
next
  case (DisconnectFromPlatform platformId)
  with assms platform_observed [of s' r platformId s] show ?thesis
    by (simp add: timed_def)
qed

subsection \<open>What a session keeps\<close>

lemma renders_anchored:
  "\<forall>s \<in> set hist. anchored s \<Longrightarrow> \<forall>s \<in> set (renders cs hist). anchored s"
proof (induction cs hist rule: renders.induct)
  case (3 r cmd k cs s past)
  have "\<forall>s' \<in> set (rev (observed (setters (perform r cmd ((s # past) ! min k (length past)))) s)
                    @ s # past). anchored s'"
    using "3.prems" by (auto intro: anchored_call [of s])
  from "3.IH" [OF this] show ?case by simp
qed simp_all

lemma renders_presence:
  "fresh_navigation cs \<Longrightarrow> \<forall>s \<in> set hist. presence s \<Longrightarrow>
   \<forall>s \<in> set (renders cs hist). presence s"
proof (induction cs hist rule: renders.induct)
  case (3 r cmd k cs s past)
  from "3.prems" have fresh: "navigation cmd \<longrightarrow> (s # past) ! min k (length past) = s"
    and rest: "fresh_navigation cs"
    by (auto simp add: fresh_navigation_def)
  have "\<forall>s' \<in> set (rev (observed (setters (perform r cmd ((s # past) ! min k (length past)))) s)
                    @ s # past). presence s'"
    using "3.prems" fresh by (auto intro: presence_call [of s])
  from "3.IH" [OF rest this] show ?case by simp
qed simp_all

lemma renders_timed:
  "polls_agree cs hist \<Longrightarrow> \<forall>s \<in> set hist. timed s \<Longrightarrow>
   \<forall>s \<in> set (renders cs hist). timed s"
proof (induction cs hist rule: renders.induct)
  case (3 r cmd k cs s past)
  from "3.prems" have agrees: "cmd = RefreshStreamStatus \<longrightarrow> poll_agrees r s"
    and rest: "polls_agree cs
          (rev (observed (setters (perform r cmd ((s # past) ! min k (length past)))) s)
           @ s # past)"
    by simp_all
  have "\<forall>s' \<in> set (rev (observed (setters (perform r cmd ((s # past) ! min k (length past)))) s)
                    @ s # past). timed s'"
    using "3.prems" agrees by (auto intro: timed_call [of s])
  from "3.IH" [OF rest this] show ?case by simp
qed simp_all

lemma initial_relations:
  "anchored initialStreamData" "presence initialStreamData" "timed initialStreamData"
  by (simp_all add: anchored_def presence_def timed_def initialStreamData_def)

section \<open>Presence of the optional fields (C1)\<close>

text \<open>
  Claim C1, as amended. In every snapshot the state cell takes in a session of the exported
  operations (\<^verbatim>\<open>startPlaylistStream\<close>, \<^verbatim>\<open>stopStream\<close>, \<^verbatim>\<open>refreshStreamStatus\<close>, \<^verbatim>\<open>nextVideo\<close>,
  \<^verbatim>\<open>previousVideo\<close>, \<^verbatim>\<open>playVideo\<close>, \<^verbatim>\<open>togglePlayPause\<close> and the platform operations, each
  called from the current render or from an earlier one):
  \<^item> \<^verbatim>\<open>startTime\<close> is present if and only if \<^verbatim>\<open>streamType\<close> is \<^verbatim>\<open>'playlist'\<close>, and then
    \<^verbatim>\<open>currentPlaylist\<close> is present;
  \<^item> \<^verbatim>\<open>currentPlaylist\<close> is present if and only if \<^verbatim>\<open>streamType\<close> is \<^verbatim>\<open>'playlist'\<close>, provided
    every playback navigation call of the session was made from the current render;
  \<^item> \<^verbatim>\<open>startTime\<close> is present if and only if \<^verbatim>\<open>isLive\<close>, provided every status poll of the
    session either failed or reported live exactly when the cell it landed on had a
    \<^verbatim>\<open>startTime\<close>.
\<close>

theorem reachable_presence:
  "\<forall>s \<in> set (renders cs [initialStreamData]).
      (startTime s \<noteq> None) = (streamType s = Playlist)
    \<and> (streamType s = Playlist \<longrightarrow> currentPlaylist s \<noteq> None)
    \<and> (fresh_navigation cs \<longrightarrow> (currentPlaylist s \<noteq> None) = (streamType s = Playlist))
    \<and> (polls_agree cs [initialStreamData] \<longrightarrow> (startTime s \<noteq> None) = isLive s)"
proof -
  have a: "\<forall>s \<in> set (renders cs [initialStreamData]). anchored s"
    by (rule renders_anchored) (simp add: initial_relations)
  have p: "fresh_navigation cs \<Longrightarrow> \<forall>s \<in> set (renders cs [initialStreamData]). presence s"
    by (rule renders_presence) (simp_all add: initial_relations)
  have t: "polls_agree cs [initialStreamData] \<Longrightarrow>
           \<forall>s \<in> set (renders cs [initialStreamData]). timed s"
    by (rule renders_timed) (simp_all add: initial_relations)
  from a p t show ?thesis
    unfolding anchored_def presence_def timed_def by blast
qed

text \<open>
  The theorem at a session whose calls are all made from the current render and whose polls
  all agree with the cell (poll on mount, start of playlist 7, poll, next video, stop): the
  cell takes six values, and the three relations hold at each of them.
\<close>

theorem reachable_presence_witness:
  "fresh_navigation demo_session
   \<and> polls_agree demo_session [initialStreamData]
   \<and> map streamType (renders demo_session [initialStreamData])
       = [NoStream, Playlist, Playlist, Playlist, NoStream, NoStream]
   \<and> list_all anchored (renders demo_session [initialStreamData])
   \<and> list_all presence (renders demo_session [initialStreamData])
   \<and> list_all timed (renders demo_session [initialStreamData])"
proof -
  have fresh: "fresh_navigation demo_session"
    by (simp add: demo_session_def fresh_navigation_def)
  have agree: "polls_agree demo_session [initialStreamData]"
    by (simp add: demo_session_def demo_defs initialStreamData_def op_defs eff_defs
          poll_agrees_def poll_answer_def reports_live_def nullish_def or_else_def)
  have kinds: "map streamType (renders demo_session [initialStreamData])
                 = [NoStream, Playlist, Playlist, Playlist, NoStream, NoStream]"
    by (simp add: demo_session_def demo_defs initialStreamData_def op_defs eff_defs
          nullish_def or_else_def)
  from reachable_presence [of demo_session] fresh agree
  have "list_all anchored (renders demo_session [initialStreamData])
        \<and> list_all presence (renders demo_session [initialStreamData])
        \<and> list_all timed (renders demo_session [initialStreamData])"
    by (auto simp add: list_all_iff anchored_def presence_def timed_def)
  with fresh agree kinds show ?thesis by simp
qed

text \<open>
  Claim C1 as stated fails in both halves. The lists are the values of the cell, newest
  first.
  \<^item> From the initial snapshot, one poll of a remote that reports a live transmission gives
    \<^verbatim>\<open>isLive = true\<close> with no \<^verbatim>\<open>startTime\<close>.
  \<^item> After a successful start, one poll of a remote that reports not-live gives
    \<^verbatim>\<open>isLive = false\<close> with the \<^verbatim>\<open>startTime\<close> of the start still there.
  \<^item> After a successful start and a successful stop, \<^verbatim>\<open>togglePlayPause\<close> called from the
    render before the stop writes that render's playback state, paused, into the stopped
    cell: \<^verbatim>\<open>currentPlaylist\<close> is present with \<^verbatim>\<open>streamType = 'none'\<close>.
\<close>

theorem snapshot_presence_counterexample:
  "map isLive (renders [(demo_remote, RefreshStreamStatus, 0)] [initialStreamData])
     = [True, False]
   \<and> map startTime (renders [(demo_remote, RefreshStreamStatus, 0)] [initialStreamData])
     = [None, None]
   \<and> map isLive (renders demo_polled_session [initialStreamData]) = [False, True, False]
   \<and> map startTime (renders demo_polled_session [initialStreamData])
     = [Some 1000, Some 1000, None]
   \<and> map streamType (renders demo_stale_session [initialStreamData])
     = [NoStream, NoStream, Playlist, NoStream]
   \<and> map (map_option isPlaying) (map currentPlaylist (renders demo_stale_session [initialStreamData]))
     = [Some False, None, Some True, None]"
  by (simp add: demo_polled_session_def demo_stale_session_def demo_defs initialStreamData_def
        op_defs eff_defs nullish_def or_else_def)

section \<open>The end of a playlist that does not loop (C2)\<close>

text \<open>
  Claim C2, as amended. \<^verbatim>\<open>nextVideo\<close> called when \<^verbatim>\<open>currentVideoIndex\<close> is the last index
  and \<^verbatim>\<open>loop\<close> is false issues \<^verbatim>\<open>stopStream()\<close> and returns without throwing; the state
  cell receives exactly what that \<^verbatim>\<open>stopStream\<close> call writes. When the remote stop
  reports success, the playback state is cleared (\<^verbatim>\<open>currentPlaylist = undefined\<close>) and
  \<^verbatim>\<open>isLive\<close> is false; when the stop call fails, the snapshot is what it was.
\<close>

theorem nextVideo_end_of_playlist:
  fixes r :: "'v remote" and s :: "'v StreamData"
  assumes "currentPlaylist s = Some cp"
    and "currentVideoIndex cp = int (length (videos cp)) - 1"
    and "\<not> loop cp"
  shows "thrown (nextVideo r s) = None
       \<and> setters (nextVideo r s) = setters (stopStream r s)
       \<and> (getToken r = Returns token \<and> fetch_stop r (streamType s) = Returns response
            \<and> json response = Returns result \<and> stop_success result \<longrightarrow>
            currentPlaylist (commit (nextVideo r s) s) = None
          \<and> \<not> isLive (commit (nextVideo r s) s))
       \<and> (thrown (stopStream r s) \<noteq> None \<longrightarrow> commit (nextVideo r s) s = s)"
  using assms
  by (auto simp add: nextVideo_def stopStream_def stopStream_try_def eff_defs
        split: outcome.splits)

text \<open>
  The theorem at the last of three videos, \<^verbatim>\<open>loop = false\<close>, with a remote whose stop
  succeeds: the playback state is gone and the session is not live.
\<close>

theorem nextVideo_end_of_playlist_witness:
  "currentPlaylist demo_last_video =
     Some \<lparr>playlist_id = 7, playlist_name = ''Mix'', videos = [10, 20, 30],
           currentVideoIndex = 2, isPlaying = True, loop = False, shuffle = False\<rparr>
   \<and> thrown (nextVideo demo_remote demo_last_video) = None
   \<and> currentPlaylist (commit (nextVideo demo_remote demo_last_video) demo_last_video) = None
   \<and> \<not> isLive (commit (nextVideo demo_remote demo_last_video) demo_last_video)"
proof -
  let ?cp = "\<lparr>playlist_id = 7, playlist_name = ''Mix'', videos = [10, 20, 30 :: nat],
              currentVideoIndex = 2, isPlaying = True, loop = False, shuffle = False\<rparr>"
  let ?result = "\<lparr>stop_success = True, stop_error = None\<rparr>"
  have cp: "currentPlaylist demo_last_video = Some ?cp"
    by (simp add: demo_last_video_eq)
  have last: "currentVideoIndex ?cp = int (length (videos ?cp)) - 1" by simp
  have noloop: "\<not> loop ?cp" by simp
  have remote: "getToken demo_remote = Returns ''token''
      \<and> fetch_stop demo_remote (streamType demo_last_video)
          = Returns \<lparr>ok = True, json = Returns ?result\<rparr>
      \<and> json \<lparr>ok = True, json = Returns ?result\<rparr> = Returns ?result
      \<and> stop_success ?result"
    by (simp add: demo_defs)
  from nextVideo_end_of_playlist [OF cp last noloop, where r = demo_remote
         and token = "''token''" and response = "\<lparr>ok = True, json = Returns ?result\<rparr>"
         and result = ?result] remote cp
  show ?thesis by simp
qed

text \<open>
  Claim C2 as stated fails when the stop request is rejected. At the last of three videos
  with \<^verbatim>\<open>loop = false\<close>, and a remote that answers the stop with \<^verbatim>\<open>success: false\<close>,
  \<^verbatim>\<open>nextVideo\<close> leaves the playback state in place and the session live.
\<close>

theorem nextVideo_stop_rejected_counterexample:
  "currentPlaylist demo_last_video =
     Some \<lparr>playlist_id = 7, playlist_name = ''Mix'', videos = [10, 20, 30],
           currentVideoIndex = 2, isPlaying = True, loop = False, shuffle = False\<rparr>
   \<and> currentPlaylist (commit (nextVideo demo_stop_rejected demo_last_video) demo_last_video)
       = currentPlaylist demo_last_video
   \<and> isLive (commit (nextVideo demo_stop_rejected demo_last_video) demo_last_video)"
  by (simp add: demo_last_video_eq nextVideo_def stopStream_def stopStream_try_def
        demo_defs eff_defs or_else_def)

section \<open>Starting a playlist session (C3, C4)\<close>

text \<open>
  Claim C3, as amended. The module throws plain \<^verbatim>\<open>Error\<close> objects; the failure kinds of
  the specification are told apart by the message. With a token at hand,
  \<^verbatim>\<open>startPlaylistStream\<close>
  \<^item> throws \<open>Error msg_playlist_not_found\<close> (NotFoundError) when the playlist lookup
    answers with a status that is not ok;
  \<^item> throws \<open>Error msg_playlist_empty\<close> (EmptyPlaylistError) when the fetched
    video list is empty;
  \<^item> throws an \<^verbatim>\<open>Error\<close> whose message is the \<^verbatim>\<open>error\<close> text of the remote's answer
    (or \<^verbatim>\<open>'Erro ao iniciar playlist'\<close> when the answer has none) when the remote start
    answers \<^verbatim>\<open>success: false\<close> (StreamStartError);
  \<^item> rethrows the transport's or parser's error as it is, with no reason from the remote,
    when the start request fails on the network or its body does not parse, as it does
    when the playlist lookup fails on the network;
  and whenever it throws, it has issued no state update: the snapshot is what it was.
\<close>

theorem startPlaylistStream_failures:
  fixes r :: "'v remote" and s :: "'v StreamData"
  assumes "getToken r = Returns token"
  shows "(fetch_playlist r playlistId = Returns playlistResponse \<and> \<not> ok playlistResponse \<longrightarrow>
            thrown (startPlaylistStream r playlistId opts) = Some (Error msg_playlist_not_found))
       \<and> (fetch_playlist r playlistId = Throws e \<longrightarrow>
            thrown (startPlaylistStream r playlistId opts) = Some e)
       \<and> (fetch_playlist r playlistId = Returns playlistResponse \<and> ok playlistResponse
            \<and> json playlistResponse = Returns playlist
            \<and> fetch_videos r playlistId = Returns videosResponse \<and> ok videosResponse
            \<and> json videosResponse = Returns playlistVideos \<longrightarrow>
            (playlistVideos = [] \<longrightarrow>
               thrown (startPlaylistStream r playlistId opts) = Some (Error msg_playlist_empty))
          \<and> (playlistVideos \<noteq> []
              \<and> finalVideos = (if opt_shuffle opts = Some True
                                then sort_random r (map item_videos playlistVideos)
                                else map item_videos playlistVideos)
              \<and> body = \<lparr>body_playlist_id = playlistId, body_titulo = nome playlist,
                         body_videos = finalVideos, body_loop = nullish (opt_loop opts) True,
                         body_shuffle = nullish (opt_shuffle opts) False\<rparr> \<longrightarrow>
               (fetch_start r body = Returns response \<and> json response = Returns result
                  \<and> \<not> success result \<longrightarrow>
                  thrown (startPlaylistStream r playlistId opts) =
                    Some (Error (case error result of
                                   None \<Rightarrow> msg_start_failed
                                 | Some reason \<Rightarrow>
                                     if reason = [] then msg_start_failed else reason)))
             \<and> (fetch_start r body = Throws e
                  \<or> (fetch_start r body = Returns response \<and> json response = Throws e) \<longrightarrow>
                  thrown (startPlaylistStream r playlistId opts) = Some e)))
       \<and> (thrown (startPlaylistStream r playlistId opts) \<noteq> None \<longrightarrow>
            setters (startPlaylistStream r playlistId opts) = []
          \<and> commit (startPlaylistStream r playlistId opts) s = s)"
  using assms
  by (auto simp add: startPlaylistStream_def startPlaylistStream_try_def eff_defs or_else_def
        split: outcome.splits option.splits)

text \<open>
  The theorem at four remotes: playlist 7 missing, playlist 7 empty, the start rejected
  with the reason \<^verbatim>\<open>quota exceeded\<close>, the start request failing on the network. The
  rejected start leaves the snapshot of a running session as it was.
\<close>

theorem startPlaylistStream_failures_witness:
  "thrown (startPlaylistStream demo_playlist_missing 7 demo_options)
     = Some (Error msg_playlist_not_found)
   \<and> thrown (startPlaylistStream demo_playlist_empty 7 demo_options)
     = Some (Error msg_playlist_empty)
   \<and> thrown (startPlaylistStream demo_start_rejected 7 demo_options)
     = Some (Error ''quota exceeded'')
   \<and> thrown (startPlaylistStream demo_start_unreachable 7 demo_options)
     = Some (TypeError ''Failed to fetch'')
   \<and> commit (startPlaylistStream demo_start_rejected 7 demo_options) demo_started
     = demo_started"
proof -
  let ?items = "[\<lparr>item_videos = 10\<rparr>, \<lparr>item_videos = 20\<rparr>, \<lparr>item_videos = (30 :: nat)\<rparr>]"
  let ?body = "\<lparr>body_playlist_id = 7, body_titulo = ''Mix'', body_videos = [10, 20, 30 :: nat],
                body_loop = True, body_shuffle = False\<rparr>"
  have t1: "getToken demo_playlist_missing = Returns ''token''"
    and t2: "getToken demo_playlist_empty = Returns ''token''"
    and t3: "getToken demo_start_rejected = Returns ''token''"
    and t4: "getToken demo_start_unreachable = Returns ''token''"
    by (simp_all add: demo_defs)
  have missing: "thrown (startPlaylistStream demo_playlist_missing 7 demo_options)
                   = Some (Error msg_playlist_not_found)"
    using startPlaylistStream_failures [OF t1, where playlistId = 7
        and playlistResponse = demo_playlist_missing_response]
    by (simp add: demo_defs)
  have empty: "thrown (startPlaylistStream demo_playlist_empty 7 demo_options)
                 = Some (Error msg_playlist_empty)"
    using startPlaylistStream_failures [OF t2, where playlistId = 7
        and playlistResponse = "\<lparr>ok = True, json = Returns \<lparr>nome = ''Mix''\<rparr>\<rparr>"
        and playlist = "\<lparr>nome = ''Mix''\<rparr>"
        and videosResponse = "\<lparr>ok = True, json = Returns []\<rparr>"
        and playlistVideos = "[]"]
    by (simp add: demo_defs)
  have rejected: "thrown (startPlaylistStream demo_start_rejected 7 demo_options)
                    = Some (Error ''quota exceeded'')"
    using startPlaylistStream_failures [OF t3, where playlistId = 7
        and playlistResponse = "\<lparr>ok = True, json = Returns \<lparr>nome = ''Mix''\<rparr>\<rparr>"
        and playlist = "\<lparr>nome = ''Mix''\<rparr>"
        and videosResponse = "\<lparr>ok = True, json = Returns ?items\<rparr>"
        and playlistVideos = ?items and opts = demo_options
        and finalVideos = "[10, 20, 30]" and body = ?body
        and response = demo_start_rejected_response
        and result = "\<lparr>success = False, stream_url = None, stream_name = None,
                        error = Some ''quota exceeded''\<rparr>"]
    by (simp add: demo_defs nullish_def)
  have unreachable: "thrown (startPlaylistStream demo_start_unreachable 7 demo_options)
                       = Some (TypeError ''Failed to fetch'')"
    using startPlaylistStream_failures [OF t4, where playlistId = 7
        and playlistResponse = "\<lparr>ok = True, json = Returns \<lparr>nome = ''Mix''\<rparr>\<rparr>"
        and playlist = "\<lparr>nome = ''Mix''\<rparr>"
        and videosResponse = "\<lparr>ok = True, json = Returns ?items\<rparr>"
        and playlistVideos = ?items and opts = demo_options
        and finalVideos = "[10, 20, 30]" and body = ?body
        and e = "TypeError ''Failed to fetch''"]
    by (simp add: demo_defs nullish_def)
  have unchanged: "commit (startPlaylistStream demo_start_rejected 7 demo_options) demo_started
                     = demo_started"
    using startPlaylistStream_failures [OF t3, where playlistId = 7 and opts = demo_options
        and s = demo_started] rejected
    by simp
  from missing empty rejected unreachable unchanged show ?thesis by simp
qed

text \<open>
  Claim C3 as stated fails where it says that a start failing on the network carries a
  reason supplied by the remote. With a start request that cannot be reached, the error
  thrown is the transport's own \<^verbatim>\<open>TypeError\<close>, the same value that is thrown when the
  playlist lookup cannot be reached; and when the remote rejects the start with an empty
  \<^verbatim>\<open>error\<close> text, the message is the module's own default.
\<close>

theorem startPlaylistStream_reason_counterexample:
  "thrown (startPlaylistStream demo_start_unreachable 7 demo_options)
     = Some (TypeError ''Failed to fetch'')
   \<and> thrown (startPlaylistStream demo_lookup_unreachable 7 demo_options)
     = Some (TypeError ''Failed to fetch'')
   \<and> json demo_start_no_reason_response
     = Returns \<lparr>success = False, stream_url = None, stream_name = None, error = Some []\<rparr>
   \<and> thrown (startPlaylistStream demo_start_no_reason 7 demo_options)
     = Some (Error ''Erro ao iniciar playlist'')"
  by (simp add: demo_defs startPlaylistStream_def startPlaylistStream_try_def rethrow_def
        nullish_def or_else_def msg_start_failed_def)

text \<open>
  Claim C4. When every request of \<^verbatim>\<open>startPlaylistStream\<close> is answered and the remote start
  reports success, the operation issues exactly one state update and does not throw. The
  update sets \<^verbatim>\<open>isLive = true\<close>, \<^verbatim>\<open>streamType = 'playlist'\<close>, \<^verbatim>\<open>startTime\<close> to the current
  time, \<^verbatim>\<open>viewers = 0\<close>, \<^verbatim>\<open>bitrate = 2500\<close>, \<^verbatim>\<open>wowzaStatus = 'online'\<close>, and installs a
  playback state with \<^verbatim>\<open>currentVideoIndex = 0\<close>, \<^verbatim>\<open>isPlaying = true\<close>, and the
  \<^verbatim>\<open>loop\<close> and \<^verbatim>\<open>shuffle\<close> flags of the options, \<^verbatim>\<open>loop\<close> defaulting to true and
  \<^verbatim>\<open>shuffle\<close> to false. It also writes \<^verbatim>\<open>streamUrl\<close>, \<^verbatim>\<open>streamName\<close> and \<^verbatim>\<open>title\<close>; every
  other field keeps its value.
\<close>

theorem startPlaylistStream_success:
  fixes r :: "'v remote" and s :: "'v StreamData"
  assumes "getToken r = Returns token"
    and "fetch_playlist r playlistId = Returns playlistResponse"
    and "ok playlistResponse" and "json playlistResponse = Returns playlist"
    and "fetch_videos r playlistId = Returns videosResponse"
    and "ok videosResponse" and "json videosResponse = Returns playlistVideos"
    and "playlistVideos \<noteq> []"
    and "finalVideos = (if opt_shuffle opts = Some True
                        then sort_random r (map item_videos playlistVideos)
                        else map item_videos playlistVideos)"
    and "fetch_start r
           \<lparr>body_playlist_id = playlistId, body_titulo = nome playlist,
            body_videos = finalVideos, body_loop = nullish (opt_loop opts) True,
            body_shuffle = nullish (opt_shuffle opts) False\<rparr> = Returns response"
    and "json response = Returns result" and "success result"
  shows "length (setters (startPlaylistStream r playlistId opts)) = 1
       \<and> thrown (startPlaylistStream r playlistId opts) = None
       \<and> commit (startPlaylistStream r playlistId opts) s =
           s\<lparr>isLive := True, streamUrl := or_else (stream_url result) [],
             streamName := or_else (stream_name result) [], title := nome playlist,
             startTime := Some (now r), viewers := 0, bitrate := 2500,
             wowzaStatus := Online, streamType := Playlist,
             currentPlaylist := Some
               \<lparr>playlist_id = playlistId, playlist_name = nome playlist,
                videos = finalVideos, currentVideoIndex = 0, isPlaying = True,
                loop = (case opt_loop opts of None \<Rightarrow> True | Some b \<Rightarrow> b),
                shuffle = (case opt_shuffle opts of None \<Rightarrow> False | Some b \<Rightarrow> b)\<rparr>\<rparr>"
  using assms
  by (simp add: startPlaylistStream_def startPlaylistStream_try_def eff_defs nullish_def)

text \<open>
  The theorem at playlist 7 with no options given, started from the initial snapshot at
  time 1000.
\<close>

theorem startPlaylistStream_success_witness:
  "length (setters (startPlaylistStream demo_remote 7 demo_options)) = 1
   \<and> thrown (startPlaylistStream demo_remote 7 demo_options) = None
   \<and> commit (startPlaylistStream demo_remote 7 demo_options) initialStreamData =
       initialStreamData\<lparr>isLive := True, streamUrl := ''rtmp://host/live'',
         streamName := ''mix'', title := ''Mix'', startTime := Some 1000, viewers := 0,
         bitrate := 2500, wowzaStatus := Online, streamType := Playlist,
         currentPlaylist := Some
           \<lparr>playlist_id = 7, playlist_name = ''Mix'', videos = [10, 20, 30],
            currentVideoIndex = 0, isPlaying = True, loop = True, shuffle = False\<rparr>\<rparr>"
proof -
  let ?items = "[\<lparr>item_videos = 10\<rparr>, \<lparr>item_videos = 20\<rparr>, \<lparr>item_videos = (30 :: nat)\<rparr>]"
  let ?playlistResponse = "\<lparr>ok = True, json = Returns \<lparr>nome = ''Mix''\<rparr>\<rparr>"
  let ?videosResponse = "\<lparr>ok = True, json = Returns ?items\<rparr>"
  let ?result = "\<lparr>success = True, stream_url = Some ''rtmp://host/live'',
                  stream_name = Some ''mix'', error = None\<rparr>"
  let ?response = "\<lparr>ok = True, json = Returns ?result\<rparr>"
  have h1: "getToken demo_remote = Returns ''token''" by (simp add: demo_defs)
  have h2: "fetch_playlist demo_remote 7 = Returns ?playlistResponse" by (simp add: demo_defs)
  have h3: "ok ?playlistResponse" by simp
  have h4: "json ?playlistResponse = Returns \<lparr>nome = ''Mix''\<rparr>" by simp
  have h5: "fetch_videos demo_remote 7 = Returns ?videosResponse" by (simp add: demo_defs)
  have h6: "ok ?videosResponse" by simp
  have h7: "json ?videosResponse = Returns ?items" by simp
  have h8: "?items \<noteq> []" by simp
  have h9: "[10, 20, 30] = (if opt_shuffle demo_options = Some True
                            then sort_random demo_remote (map item_videos ?items)
                            else map item_videos ?items)"
    by (simp add: demo_defs)
  have h10: "fetch_start demo_remote
               \<lparr>body_playlist_id = 7, body_titulo = nome \<lparr>nome = ''Mix''\<rparr>,
                body_videos = [10, 20, 30], body_loop = nullish (opt_loop demo_options) True,
                body_shuffle = nullish (opt_shuffle demo_options) False\<rparr> = Returns ?response"
    by (simp add: demo_defs)
  have h11: "json ?response = Returns ?result" by simp
  have h12: "success ?result" by simp
  from startPlaylistStream_success [OF h1 h2 h3 h4 h5 h6 h7 h8 h9 h10 h11 h12,
         of initialStreamData]
  show ?thesis by (simp add: or_else_def demo_defs)
qed

section \<open>Stopping the stream (C5)\<close>

text \<open>
  Claim C5. With a token at hand, when the remote stop reports success, \<^verbatim>\<open>stopStream\<close>
  does not throw and writes the idle values: \<^verbatim>\<open>isLive = false\<close>, \<^verbatim>\<open>viewers\<close>,
  \<^verbatim>\<open>bitrate\<close> and \<^verbatim>\<open>duration\<close> zero, \<^verbatim>\<open>uptime = '00:00:00'\<close>, \<^verbatim>\<open>streamType = 'none'\<close>,
  \<^verbatim>\<open>currentPlaylist\<close> and \<^verbatim>\<open>startTime\<close> undefined, \<^verbatim>\<open>wowzaStatus = 'offline'\<close> (and
  empty \<^verbatim>\<open>streamUrl\<close> and \<^verbatim>\<open>streamName\<close>). When the remote answers \<^verbatim>\<open>success: false\<close> it
  throws an \<^verbatim>\<open>Error\<close> with the remote's \<^verbatim>\<open>error\<close> text or
  the default \<open>msg_stop_failed\<close> (StreamStopError); when the request fails on the network
  or its body does not parse it rethrows that error. In both failure cases the snapshot
  is what it was.
\<close>

theorem stopStream_spec:
  fixes r :: "'v remote" and s :: "'v StreamData"
  assumes "getToken r = Returns token"
  shows "(fetch_stop r (streamType s) = Returns response \<and> json response = Returns result
            \<and> stop_success result \<longrightarrow>
          thrown (stopStream r s) = None \<and>
          commit (stopStream r s) s =
            s\<lparr>isLive := False, streamUrl := [], viewers := 0, uptime := ''00:00:00'',
              bitrate := 0, duration := 0, startTime := None, wowzaStatus := Offline,
              streamName := [], streamType := NoStream, currentPlaylist := None\<rparr>)
       \<and> (fetch_stop r (streamType s) = Returns response \<and> json response = Returns result
            \<and> \<not> stop_success result \<longrightarrow>
          thrown (stopStream r s) = Some (Error (or_else (stop_error result) msg_stop_failed)) \<and>
          commit (stopStream r s) s = s)
       \<and> (fetch_stop r (streamType s) = Throws e
            \<or> (fetch_stop r (streamType s) = Returns response \<and> json response = Throws e) \<longrightarrow>
          thrown (stopStream r s) = Some e \<and> commit (stopStream r s) s = s)"
  using assms
  by (auto simp add: stopStream_def stopStream_try_def eff_defs)

text \<open>
  The theorem at the running playlist session, with a remote that stops, one that rejects
  the stop with the reason \<^verbatim>\<open>busy\<close>, and one that cannot be reached.
\<close>

theorem stopStream_spec_witness:
  "commit (stopStream demo_remote demo_started) demo_started =
     demo_started\<lparr>isLive := False, streamUrl := [], viewers := 0, uptime := ''00:00:00'',
       bitrate := 0, duration := 0, startTime := None, wowzaStatus := Offline,
       streamName := [], streamType := NoStream, currentPlaylist := None\<rparr>
   \<and> thrown (stopStream demo_remote demo_started) = None
   \<and> thrown (stopStream demo_stop_rejected demo_started) = Some (Error ''busy'')
   \<and> commit (stopStream demo_stop_rejected demo_started) demo_started = demo_started
   \<and> thrown (stopStream demo_stop_unreachable demo_started)
       = Some (TypeError ''Failed to fetch'')
   \<and> commit (stopStream demo_stop_unreachable demo_started) demo_started = demo_started"
proof -
  let ?stopped = "\<lparr>stop_success = True, stop_error = None\<rparr>"
  have t1: "getToken demo_remote = Returns ''token''"
    and t2: "getToken demo_stop_rejected = Returns ''token''"
    and t3: "getToken demo_stop_unreachable = Returns ''token''"
    by (simp_all add: demo_defs)
  have stops: "commit (stopStream demo_remote demo_started) demo_started =
      demo_started\<lparr>isLive := False, streamUrl := [], viewers := 0, uptime := ''00:00:00'',
        bitrate := 0, duration := 0, startTime := None, wowzaStatus := Offline,
        streamName := [], streamType := NoStream, currentPlaylist := None\<rparr>
      \<and> thrown (stopStream demo_remote demo_started) = None"
    using stopStream_spec [OF t1, where s = demo_started
        and response = "\<lparr>ok = True, json = Returns ?stopped\<rparr>" and result = ?stopped]
    by (simp add: demo_defs)
  have rejects: "thrown (stopStream demo_stop_rejected demo_started) = Some (Error ''busy'')
      \<and> commit (stopStream demo_stop_rejected demo_started) demo_started = demo_started"
    using stopStream_spec [OF t2, where s = demo_started
        and response = demo_stop_rejected_response
        and result = "\<lparr>stop_success = False, stop_error = Some ''busy''\<rparr>"]
    by (simp add: demo_defs or_else_def)
  have unreachable: "thrown (stopStream demo_stop_unreachable demo_started)
        = Some (TypeError ''Failed to fetch'')
      \<and> commit (stopStream demo_stop_unreachable demo_started) demo_started = demo_started"
    using stopStream_spec [OF t3, where s = demo_started
        and e = "TypeError ''Failed to fetch''"]
    by (simp add: demo_defs)
  from stops rejects unreachable show ?thesis by simp
qed

section \<open>The status poll (C6, C8, C10)\<close>

text \<open>
  Claim C6. When the status endpoint answers and its answer reports \<^verbatim>\<open>is_live\<close> false,
  \<^verbatim>\<open>refreshStreamStatus\<close> writes \<^verbatim>\<open>isLive = false\<close>, \<^verbatim>\<open>viewers = 0\<close>, \<^verbatim>\<open>bitrate = 0\<close>,
  \<^verbatim>\<open>uptime = '00:00:00'\<close> and \<^verbatim>\<open>wowzaStatus = 'offline'\<close> over whatever snapshot it finds,
  also one that a start has just set live, and does not throw.
\<close>

theorem refreshStreamStatus_not_live:
  fixes r :: "'v remote" and s :: "'v StreamData"
  assumes "getToken r = Returns token"
    and "fetch_status r = Returns response"
    and "json response = Returns result"
    and "\<not> is_live result"
  shows "commit (refreshStreamStatus r) s =
           s\<lparr>isLive := False, viewers := 0, bitrate := 0, uptime := ''00:00:00'',
             wowzaStatus := Offline\<rparr>
         \<and> thrown (refreshStreamStatus r) = None"
  using assms
  by (simp add: refreshStreamStatus_def refreshStreamStatus_try_def eff_defs
        split: bool.splits option.splits)

text \<open>The theorem at the snapshot a successful start of playlist 7 has just left.\<close>

theorem refreshStreamStatus_not_live_witness:
  "isLive demo_started
   \<and> \<not> isLive (commit (refreshStreamStatus demo_not_live) demo_started)
   \<and> viewers (commit (refreshStreamStatus demo_not_live) demo_started) = 0
   \<and> bitrate (commit (refreshStreamStatus demo_not_live) demo_started) = 0
   \<and> uptime (commit (refreshStreamStatus demo_not_live) demo_started) = ''00:00:00''
   \<and> wowzaStatus (commit (refreshStreamStatus demo_not_live) demo_started) = Offline"
proof -
  let ?result = "\<lparr>status_success = True, is_live = False, transmission = None\<rparr>"
  have h1: "getToken demo_not_live = Returns ''token''" by (simp add: demo_defs)
  have h2: "fetch_status demo_not_live = Returns demo_not_live_response"
    by (simp add: demo_defs)
  have h3: "json demo_not_live_response = Returns ?result" by (simp add: demo_defs)
  have h4: "\<not> is_live ?result" by simp
  have live: "isLive demo_started" by (simp add: demo_started_eq)
  from refreshStreamStatus_not_live [OF h1 h2 h3 h4, of demo_started] live
  show ?thesis by simp
qed

text \<open>
  Claim C8. When the poll fails before an answer is read (the token cannot be had, the
  request fails on the network, or the body does not parse), \<^verbatim>\<open>refreshStreamStatus\<close>
  writes \<^verbatim>\<open>wowzaStatus = 'error'\<close> and nothing else, and does not throw.
\<close>

theorem refreshStreamStatus_fail_soft:
  fixes r :: "'v remote" and s :: "'v StreamData"
  assumes "getToken r = Throws e \<or> fetch_status r = Throws e \<or>
           (\<exists>response. fetch_status r = Returns response \<and> json response = Throws e)"
  shows "commit (refreshStreamStatus r) s = s\<lparr>wowzaStatus := WowzaError\<rparr>
         \<and> thrown (refreshStreamStatus r) = None"
  using assms
  by (auto simp add: refreshStreamStatus_def refreshStreamStatus_try_def eff_defs
        split: outcome.splits)

text \<open>The theorem at the running playlist session and a status endpoint out of reach.\<close>

theorem refreshStreamStatus_fail_soft_witness:
  "commit (refreshStreamStatus demo_status_unreachable) demo_started
     = demo_started\<lparr>wowzaStatus := WowzaError\<rparr>
   \<and> thrown (refreshStreamStatus demo_status_unreachable) = None
   \<and> isLive (commit (refreshStreamStatus demo_status_unreachable) demo_started)
   \<and> currentPlaylist (commit (refreshStreamStatus demo_status_unreachable) demo_started)
       = currentPlaylist demo_started"
proof -
  have h: "getToken demo_status_unreachable = Throws (TypeError ''Failed to fetch'')
           \<or> fetch_status demo_status_unreachable = Throws (TypeError ''Failed to fetch'')
           \<or> (\<exists>response. fetch_status demo_status_unreachable = Returns response
                 \<and> json response = Throws (TypeError ''Failed to fetch''))"
    by (simp add: demo_defs)
  have live: "isLive demo_started" by (simp add: demo_started_eq)
  from refreshStreamStatus_fail_soft [OF h, of demo_started] live
  show ?thesis by simp
qed

text \<open>
  Claim C10. When the status endpoint answers \<^verbatim>\<open>success: true\<close>, \<^verbatim>\<open>is_live: true\<close> and no
  \<^verbatim>\<open>transmission\<close> object, \<^verbatim>\<open>refreshStreamStatus\<close> takes the not-live branch: it writes
  \<^verbatim>\<open>isLive = false\<close>, \<^verbatim>\<open>viewers = 0\<close>, \<^verbatim>\<open>bitrate = 0\<close>, \<^verbatim>\<open>uptime = '00:00:00'\<close> and
  \<^verbatim>\<open>wowzaStatus = 'offline'\<close>.
\<close>

theorem refreshStreamStatus_no_transmission:
  fixes r :: "'v remote" and s :: "'v StreamData"
  assumes "getToken r = Returns token"
    and "fetch_status r = Returns response"
    and "json response = Returns result"
    and "status_success result" and "is_live result" and "transmission result = None"
  shows "commit (refreshStreamStatus r) s =
           s\<lparr>isLive := False, viewers := 0, bitrate := 0, uptime := ''00:00:00'',
             wowzaStatus := Offline\<rparr>"
  using assms
  by (simp add: refreshStreamStatus_def refreshStreamStatus_try_def eff_defs)

text \<open>The theorem at the running playlist session.\<close>

theorem refreshStreamStatus_no_transmission_witness:
  "commit (refreshStreamStatus demo_no_transmission) demo_started =
     demo_started\<lparr>isLive := False, viewers := 0, bitrate := 0, uptime := ''00:00:00'',
       wowzaStatus := Offline\<rparr>
   \<and> isLive demo_started"
proof -
  let ?result = "\<lparr>status_success = True, is_live = True, transmission = None\<rparr>"
  have h1: "getToken demo_no_transmission = Returns ''token''" by (simp add: demo_defs)
  have h2: "fetch_status demo_no_transmission = Returns demo_no_transmission_response"
    by (simp add: demo_defs)
  have h3: "json demo_no_transmission_response = Returns ?result" by (simp add: demo_defs)
  have h4: "status_success ?result" and h5: "is_live ?result"
    and h6: "transmission ?result = None" by simp_all
  have live: "isLive demo_started" by (simp add: demo_started_eq)
  from refreshStreamStatus_no_transmission [OF h1 h2 h3 h4 h5 h6, of demo_started] live
  show ?thesis by simp
qed

section \<open>Playlist navigation keeps the index valid (C7)\<close>

text \<open>
  Claim C7. From a playback state over a non-empty video list with
  \<open>0 \<le> currentVideoIndex < length\<close>:
  \<^item> after \<^verbatim>\<open>nextVideo\<close> the playback state is either gone (only at the last index of a
    playlist that does not loop, when the stop it issues succeeds) or has the same
    videos and an index in \<open>[0, length)\<close>;
  \<^item> after \<^verbatim>\<open>previousVideo\<close> the playback state has the same videos and an index in
    \<open>[0, length)\<close>, which is \<open>length - 1\<close> when the index was 0;
  \<^item> after \<^verbatim>\<open>playVideo(index)\<close> the playback state has the same videos and an index in
    \<open>[0, length)\<close>, which is the old one when \<open>index\<close> is out of range.
\<close>

theorem navigation_index_valid:
  fixes r :: "'v remote" and s :: "'v StreamData"
  assumes "currentPlaylist s = Some cp" and "videos cp \<noteq> []"
    and "0 \<le> currentVideoIndex cp" and "currentVideoIndex cp < int (length (videos cp))"
  shows "(case currentPlaylist (commit (nextVideo r s) s) of
            None \<Rightarrow> currentVideoIndex cp + 1 = int (length (videos cp)) \<and> \<not> loop cp
          | Some cp' \<Rightarrow> videos cp' = videos cp \<and> 0 \<le> currentVideoIndex cp'
                \<and> currentVideoIndex cp' < int (length (videos cp')))
       \<and> (\<exists>cp'. currentPlaylist (commit (previousVideo s) s) = Some cp'
             \<and> videos cp' = videos cp \<and> 0 \<le> currentVideoIndex cp'
             \<and> currentVideoIndex cp' < int (length (videos cp'))
             \<and> (currentVideoIndex cp = 0 \<longrightarrow>
                  currentVideoIndex cp' = int (length (videos cp)) - 1))
       \<and> (\<exists>cp'. currentPlaylist (commit (playVideo s index) s) = Some cp'
             \<and> videos cp' = videos cp \<and> 0 \<le> currentVideoIndex cp'
             \<and> currentVideoIndex cp' < int (length (videos cp'))
             \<and> (\<not> (0 \<le> index \<and> index < int (length (videos cp))) \<longrightarrow>
                  currentVideoIndex cp' = currentVideoIndex cp))"
proof (intro conjI)
  show "case currentPlaylist (commit (nextVideo r s) s) of
            None \<Rightarrow> currentVideoIndex cp + 1 = int (length (videos cp)) \<and> \<not> loop cp
          | Some cp' \<Rightarrow> videos cp' = videos cp \<and> 0 \<le> currentVideoIndex cp'
                \<and> currentVideoIndex cp' < int (length (videos cp'))"
    using assms
    by (auto simp add: nextVideo_def stopStream_def stopStream_try_def eff_defs Let_def
          split: outcome.splits)
next
  show "\<exists>cp'. currentPlaylist (commit (previousVideo s) s) = Some cp'
             \<and> videos cp' = videos cp \<and> 0 \<le> currentVideoIndex cp'
             \<and> currentVideoIndex cp' < int (length (videos cp'))
             \<and> (currentVideoIndex cp = 0 \<longrightarrow>
                  currentVideoIndex cp' = int (length (videos cp)) - 1)"
    using assms by (simp add: previousVideo_def eff_defs Let_def)
next
  show "\<exists>cp'. currentPlaylist (commit (playVideo s index) s) = Some cp'
             \<and> videos cp' = videos cp \<and> 0 \<le> currentVideoIndex cp'
             \<and> currentVideoIndex cp' < int (length (videos cp'))
             \<and> (\<not> (0 \<le> index \<and> index < int (length (videos cp))) \<longrightarrow>
                  currentVideoIndex cp' = currentVideoIndex cp)"
    using assms by (simp add: playVideo_def eff_defs)
qed

text \<open>
  The theorem at the first of three videos: \<^verbatim>\<open>previousVideo\<close> wraps to index 2,
  \<^verbatim>\<open>playVideo(5)\<close> and \<^verbatim>\<open>playVideo(-1)\<close> leave index 0, \<^verbatim>\<open>nextVideo\<close> moves to index 1.
\<close>

theorem navigation_index_valid_witness:
  "map_option currentVideoIndex (currentPlaylist demo_started) = Some 0
   \<and> map_option currentVideoIndex
        (currentPlaylist (commit (previousVideo demo_started) demo_started)) = Some 2
   \<and> map_option currentVideoIndex
        (currentPlaylist (commit (playVideo demo_started 5) demo_started)) = Some 0
   \<and> map_option currentVideoIndex
        (currentPlaylist (commit (playVideo demo_started (- 1)) demo_started)) = Some 0
   \<and> map_option currentVideoIndex
        (currentPlaylist (commit (nextVideo demo_remote demo_started) demo_started)) = Some 1"
proof -
  let ?cp = "\<lparr>playlist_id = 7, playlist_name = ''Mix'', videos = [10, 20, 30 :: nat],
              currentVideoIndex = 0, isPlaying = True, loop = True, shuffle = False\<rparr>"
  have h1: "currentPlaylist demo_started = Some ?cp" by (simp add: demo_started_eq)
  have h2: "videos ?cp \<noteq> []" and h3: "0 \<le> currentVideoIndex ?cp"
    and h4: "currentVideoIndex ?cp < int (length (videos ?cp))" by simp_all
  have nxt: "map_option currentVideoIndex
        (currentPlaylist (commit (nextVideo demo_remote demo_started) demo_started)) = Some 1"
    by (simp add: demo_started_eq nextVideo_def eff_defs)
  from navigation_index_valid [OF h1 h2 h3 h4, of demo_remote 5]
       navigation_index_valid [OF h1 h2 h3 h4, of demo_remote "- 1"] h1 nxt
  show ?thesis by auto
qed

section \<open>Platform connector (C9)\<close>

text \<open>
  Claim C9. For every platform id, the states observed while \<^verbatim>\<open>connectToPlatform\<close> runs
  show that platform's status first as \<^verbatim>\<open>connecting\<close> and then, when the round trip
  succeeds, as \<^verbatim>\<open>connected\<close>; when the round trip fails they show \<^verbatim>\<open>connecting\<close> and then
  \<^verbatim>\<open>error\<close>, and the error is rethrown. \<^verbatim>\<open>disconnectFromPlatform\<close> shows
  \<^verbatim>\<open>disconnected\<close> when the round trip succeeds and \<^verbatim>\<open>error\<close> (rethrowing) when it fails.
  In the source the round trip is a timer that always resolves; the \<^verbatim>\<open>catch\<close> blocks
  are what the code does should it reject.
\<close>

theorem platform_status_sequence:
  fixes r :: "'v remote" and s :: "'v StreamData"
  shows "(platform_round_trip r = Returns u \<longrightarrow>
            map (status_of pid) (observed (setters (connectToPlatform r pid)) s)
              = [replicate (length (status_of pid s)) Connecting,
                 replicate (length (status_of pid s)) Connected]
          \<and> thrown (connectToPlatform r pid) = None)
       \<and> (platform_round_trip r = Throws e \<longrightarrow>
            map (status_of pid) (observed (setters (connectToPlatform r pid)) s)
              = [replicate (length (status_of pid s)) Connecting,
                 replicate (length (status_of pid s)) StatusError]
          \<and> thrown (connectToPlatform r pid) = Some e)
       \<and> (platform_round_trip r = Returns u \<longrightarrow>
            map (status_of pid) (observed (setters (disconnectFromPlatform r pid)) s)
              = [replicate (length (status_of pid s)) Disconnected]
          \<and> thrown (disconnectFromPlatform r pid) = None)
       \<and> (platform_round_trip r = Throws e \<longrightarrow>
            map (status_of pid) (observed (setters (disconnectFromPlatform r pid)) s)
              = [replicate (length (status_of pid s)) StatusError]
          \<and> thrown (disconnectFromPlatform r pid) = Some e)"
  by (simp add: connectToPlatform_def disconnectFromPlatform_def status_of_updatePlatformConfig)

text \<open>
  The theorem at the platform \<^verbatim>\<open>youtube\<close> of the initial catalog: the statuses observed
  are \<^verbatim>\<open>connecting\<close>, \<^verbatim>\<open>connected\<close> on success and \<^verbatim>\<open>connecting\<close>, \<^verbatim>\<open>error\<close> on failure.
\<close>

theorem platform_status_sequence_witness:
  "map (status_of ''youtube'')
     (observed (setters (connectToPlatform demo_remote ''youtube'')) initialStreamData)
     = [[Connecting], [Connected]]
   \<and> map (status_of ''youtube'')
     (observed (setters (connectToPlatform demo_round_trip_fails ''youtube'')) initialStreamData)
     = [[Connecting], [StatusError]]
   \<and> thrown (connectToPlatform demo_round_trip_fails ''youtube'') = Some (Error ''timeout'')
   \<and> map (status_of ''youtube'')
     (observed (setters (disconnectFromPlatform demo_remote ''youtube'')) initialStreamData)
     = [[Disconnected]]
   \<and> map (status_of ''youtube'')
     (observed (setters (disconnectFromPlatform demo_round_trip_fails ''youtube''))
        initialStreamData)
     = [[StatusError]]"
proof -
  have ok: "platform_round_trip demo_remote = Returns ()"
    and fails: "platform_round_trip demo_round_trip_fails = Throws (Error ''timeout'')"
    by (simp_all add: demo_defs)
  from platform_status_sequence [where r = demo_remote and u = "()" and pid = "''youtube''"
         and s = "initialStreamData :: nat StreamData"]
       platform_status_sequence [where r = demo_round_trip_fails and e = "Error ''timeout''"
         and pid = "''youtube''" and s = "initialStreamData :: nat StreamData"]
       ok fails status_of_defaultPlatforms
  show ?thesis by simp
qed

end
